theory Spec2Isabelle
  imports Complex_Main "HOL-Library.AList" "HOL-Library.Multiset"
begin

section \<open>JavaScript primitives used by the gas estimation tester\<close>

text \<open>
  The tester (\<^verbatim>\<open>scripts/test-gas-estimation.js\<close>) computes with BigInt values
  (unbounded integers, modelled by \<^typ>\<open>int\<close>), renders them with \<^verbatim>\<open>toString()\<close> and
  reads them back with \<^verbatim>\<open>BigInt(string)\<close>. An exception is a value of \<open>js_error\<close>
  on the left of a sum.
\<close>

datatype js_error = RangeError | SyntaxError

text \<open>
  BigInt division \<^verbatim>\<open>x / y\<close>: throws a RangeError when the divisor is \<^verbatim>\<open>0n\<close>,
  otherwise the quotient truncated towards zero.
\<close>

definition bigint_div :: "int \<Rightarrow> int \<Rightarrow> js_error + int" where
  "bigint_div x y =
     (if y = 0 then Inl RangeError
      else Inr (sgn x * sgn y * (\<bar>x\<bar> div \<bar>y\<bar>)))"

definition digit_char :: "nat \<Rightarrow> char" where
  "digit_char d = ''0123456789'' ! d"

fun decimal_digits :: "nat \<Rightarrow> string" where
  "decimal_digits n =
     (if n < 10 then [digit_char n]
      else decimal_digits (n div 10) @ [digit_char (n mod 10)])"

declare decimal_digits.simps [simp del]

text \<open>\<^verbatim>\<open>BigInt.prototype.toString()\<close>: the decimal digits, with a minus sign when negative.\<close>

definition toString :: "int \<Rightarrow> string" where
  "toString n =
     (if n < 0 then CHR ''-'' # decimal_digits (nat (- n)) else decimal_digits (nat n))"

section \<open>Reading a BigInt back from a string\<close>

text \<open>
  \<^verbatim>\<open>BigInt(string)\<close> follows StringToBigInt: white space around the literal is dropped,
  the empty string is \<^verbatim>\<open>0n\<close>, a decimal literal may carry a sign, a literal with a
  radix prefix (\<^verbatim>\<open>0x\<close>, \<^verbatim>\<open>0o\<close>, \<^verbatim>\<open>0b\<close>) may not, and anything else throws a
  SyntaxError. Strings are byte strings here, so of the white space characters only
  the ASCII ones (tab, line feed, vertical tab, form feed, carriage return, space) are
  recognised.
\<close>

definition is_whitespace :: "char \<Rightarrow> bool" where
  "is_whitespace c = (c \<in> set [CHR 0x09, CHR 0x0A, CHR 0x0B, CHR 0x0C, CHR 0x0D, CHR '' ''])"

definition trim :: "string \<Rightarrow> string" where
  "trim s = rev (dropWhile is_whitespace (rev (dropWhile is_whitespace s)))"

definition digit_value :: "char \<Rightarrow> nat option" where
  "digit_value c =
     (let k = (of_char c :: nat)
      in if 48 \<le> k \<and> k \<le> 57 then Some (k - 48)
         else if 97 \<le> k \<and> k \<le> 122 then Some (k - 87)
         else if 65 \<le> k \<and> k \<le> 90 then Some (k - 55)
         else None)"

fun parse_acc :: "nat \<Rightarrow> nat \<Rightarrow> string \<Rightarrow> nat option" where
  "parse_acc radix acc [] = Some acc"
| "parse_acc radix acc (c # cs) =
     (case digit_value c of
        None \<Rightarrow> None
      | Some d \<Rightarrow> if d < radix then parse_acc radix (acc * radix + d) cs else None)"

definition parse_digits :: "nat \<Rightarrow> string \<Rightarrow> nat option" where
  "parse_digits radix s = (if s = [] then None else parse_acc radix 0 s)"

definition radix_prefix :: "string \<Rightarrow> nat option" where
  "radix_prefix s =
     (case s of
        c0 # c1 # rest \<Rightarrow>
          if c0 \<noteq> CHR ''0'' then None
          else if c1 = CHR ''x'' \<or> c1 = CHR ''X'' then Some 16
          else if c1 = CHR ''o'' \<or> c1 = CHR ''O'' then Some 8
          else if c1 = CHR ''b'' \<or> c1 = CHR ''B'' then Some 2
          else None
      | _ \<Rightarrow> None)"

definition StringToBigInt :: "string \<Rightarrow> int option" where
  "StringToBigInt s =
     (let t = trim s
      in if t = [] then Some 0
         else if hd t = CHR ''-'' then map_option (\<lambda>n. - int n) (parse_digits 10 (tl t))
         else if hd t = CHR ''+'' then map_option int (parse_digits 10 (tl t))
         else case radix_prefix t of
                Some radix \<Rightarrow> map_option int (parse_digits radix (drop 2 t))
              | None \<Rightarrow> map_option int (parse_digits 10 t))"

definition BigInt :: "string \<Rightarrow> js_error + int" where
  "BigInt s = (case StringToBigInt s of None \<Rightarrow> Inl SyntaxError | Some n \<Rightarrow> Inr n)"

definition is_decimal_digit :: "char \<Rightarrow> bool" where
  "is_decimal_digit c = (c \<in> set ''0123456789'')"

section \<open>Numbers and their formatting\<close>

text \<open>
  A JavaScript Number is an IEEE 754 double. A finite double is modelled by the rational
  it denotes; \<open>to_double\<close> rounds a rational to the nearest double, ties to the even
  significand of 53 bits. The exponent is not bounded: the values formed here are \<open>0\<close> or
  lie between \<open>2^-53\<close> and \<open>100\<close>, far from overflow and from the subnormal range.
\<close>

fun bit_length :: "nat \<Rightarrow> nat" where
  "bit_length n = (if n = 0 then 0 else Suc (bit_length (n div 2)))"

declare bit_length.simps [simp del]

definition pow2 :: "int \<Rightarrow> rat" where
  "pow2 e = (if 0 \<le> e then 2 ^ nat e else 1 / 2 ^ nat (- e))"

text \<open>The integer \<open>L\<close> with \<open>2^L \<le> x < 2^(L+1)\<close>, for \<open>x > 0\<close>.\<close>

definition binary_exponent :: "rat \<Rightarrow> int" where
  "binary_exponent x =
     (let (a, b) = quotient_of x;
          e0 = int (bit_length (nat a)) - int (bit_length (nat b))
      in if pow2 e0 \<le> x then e0 else e0 - 1)"

definition round_half_even :: "rat \<Rightarrow> int" where
  "round_half_even x =
     (let f = \<lfloor>x\<rfloor>; d = x - of_int f
      in if d < 1 / 2 then f
         else if 1 / 2 < d then f + 1
         else if even f then f else f + 1)"

definition to_double :: "rat \<Rightarrow> rat" where
  "to_double x =
     (if x = 0 then 0
      else let e = binary_exponent \<bar>x\<bar> - 52
           in sgn x * of_int (round_half_even (\<bar>x\<bar> / pow2 e)) * pow2 e)"

text \<open>Number division and multiplication, for a divisor other than zero.\<close>

definition number_div :: "rat \<Rightarrow> rat \<Rightarrow> rat" where
  "number_div x y = to_double (x / y)"

definition number_mul :: "rat \<Rightarrow> rat \<Rightarrow> rat" where
  "number_mul x y = to_double (x * y)"

text \<open>
  \<^verbatim>\<open>x.toFixed(2)\<close> for \<open>0 \<le> x < 10^21\<close>: the integer \<open>n\<close> for which \<open>n / 100\<close> is nearest to
  \<open>x\<close> (the larger one at a tie), written with at least three digits and a point before
  the last two.
\<close>

definition toFixed2 :: "rat \<Rightarrow> string" where
  "toFixed2 x =
     (let n = nat \<lfloor>x * 100 + 1 / 2\<rfloor>;
          m = decimal_digits n;
          m = (if length m \<le> 2 then replicate (3 - length m) CHR ''0'' @ m else m);
          k = length m
      in take (k - 2) m @ ''.'' @ drop (k - 2) m)"

text \<open>The expression \<^verbatim>\<open>((part / whole) * 100).toFixed(2) + "%"\<close> on two array lengths.\<close>

definition percentage_string :: "nat \<Rightarrow> nat \<Rightarrow> string" where
  "percentage_string part whole =
     toFixed2 (number_mul (number_div (of_nat part) (of_nat whole)) 100) @ ''%''"

section \<open>The accuracy classifier\<close>

text \<open>The object returned by \<^verbatim>\<open>calculateAccuracy\<close>.\<close>

record accuracy =
  accurate :: bool
  overEstimated :: bool
  underEstimated :: bool
  differenceWei :: string
  differencePercentage :: string

text \<open>
  \<^verbatim>\<open>calculateAccuracy(estimated, actual)\<close>, lines 173 to 185. The constants are evaluated
  in the order of the source: \<^verbatim>\<open>diff\<close>, then \<^verbatim>\<open>percentage\<close> (whose division throws
  when \<^verbatim>\<open>actual\<close> is \<^verbatim>\<open>0n\<close>), then \<^verbatim>\<open>overEstimated\<close>, then the fields of the result.
\<close>

definition calculateAccuracy :: "int \<Rightarrow> int \<Rightarrow> js_error + accuracy" where
  "calculateAccuracy estimated actual =
     (let diff = (if estimated > actual then estimated - actual else actual - estimated)
      in case bigint_div (diff * 100) actual of
           Inl err \<Rightarrow> Inl err
         | Inr percentage \<Rightarrow>
             (let overEstimated = estimated > actual
              in case bigint_div (actual * 5) 100 of
                   Inl err \<Rightarrow> Inl err
                 | Inr tolerance \<Rightarrow>
                     Inr \<lparr> accurate = diff \<le> tolerance,
                           overEstimated = overEstimated,
                           underEstimated = \<not> overEstimated,
                           differenceWei = toString diff,
                           differencePercentage = toString percentage @ ''%'' \<rparr>))"

section \<open>The tester and its record of gas estimations\<close>

text \<open>
  The program records three kinds of estimation: the \<^verbatim>\<open>type\<close> field of a pushed record is
  one of the literals \<^verbatim>\<open>"eoa_transfer"\<close>, \<^verbatim>\<open>"contract_call"\<close> and \<^verbatim>\<open>"erc20_transfer"\<close>.
\<close>

datatype estimation_type = eoa_transfer | contract_call | erc20_transfer

text \<open>
  An element of \<^verbatim>\<open>this.gasEstimations\<close>. The gas values are stored as the decimal strings
  of the BigInts; only the contract call records carry a \<^verbatim>\<open>function\<close> field.
\<close>

record gas_estimation =
  type :: estimation_type
  "function" :: "string option"
  estimated :: string
  actual :: string
  accuracy :: accuracy

text \<open>
  The part of a \<^verbatim>\<open>GasEstimationTester\<close> the methods below touch: the recorded estimations
  and the lines written to the console.
\<close>

record tester =
  gasEstimations :: "gas_estimation list"
  console :: "string list"

definition ESC :: string where
  "ESC = [CHR 0x1B]"

definition RESET :: string where
  "RESET = ESC @ ''[0m''"

definition BRIGHT :: string where
  "BRIGHT = ESC @ ''[1m''"

definition YELLOW :: string where
  "YELLOW = ESC @ ''[33m''"

text \<open>\<^verbatim>\<open>log(message, color = COLORS.RESET)\<close>, lines 28 to 30.\<close>

definition log :: "string \<Rightarrow> string \<Rightarrow> tester \<Rightarrow> tester" where
  "log message color this = this\<lparr> console := console this @ [color @ message @ RESET] \<rparr>"

text \<open>
  Recording one estimation, as in lines 212 to 219, 375 to 383 and 466 to 473: the
  classifier runs first, and when it throws nothing is pushed. \<open>gasEstimate\<close> and \<open>gasUsed\<close>
  are the two BigInts obtained from the provider and from the receipt.
\<close>

definition recordGasEstimation ::
  "estimation_type \<Rightarrow> string option \<Rightarrow> int \<Rightarrow> int \<Rightarrow> tester \<Rightarrow> (js_error + accuracy) \<times> tester"
where
  "recordGasEstimation ty func gasEstimate gasUsed this =
     (case calculateAccuracy gasEstimate gasUsed of
        Inl err \<Rightarrow> (Inl err, this)
      | Inr verdict \<Rightarrow>
          (Inr verdict,
           this\<lparr> gasEstimations := gasEstimations this @
                   [\<lparr> type = ty, function = func,
                      estimated = toString gasEstimate,
                      actual = toString gasUsed,
                      accuracy = verdict \<rparr>] \<rparr>))"

section \<open>The gas report\<close>

text \<open>The object built by \<^verbatim>\<open>generateGasReport\<close> when at least one estimation is recorded.\<close>

record gas_report =
  totalEstimations :: nat
  accurateEstimations :: nat
  overEstimations :: nat
  underEstimations :: int
  accuracyRate :: string
  totalEstimatedGas :: string
  totalActualGas :: string
  estimationEfficiency :: string
  averageEstimated :: string
  averageActual :: string

text \<open>What \<^verbatim>\<open>generateGasReport\<close> returns: the empty object \<^verbatim>\<open>{}\<close> or a report.\<close>

datatype report_object = EmptyObject | Report gas_report

text \<open>
  \<^verbatim>\<open>this.gasEstimations.reduce((sum, est) => sum + BigInt(est.field), 0n)\<close>: a left fold that
  stops at the first string \<^verbatim>\<open>BigInt\<close> rejects.
\<close>

fun reduce_BigInt :: "(gas_estimation \<Rightarrow> string) \<Rightarrow> int \<Rightarrow> gas_estimation list \<Rightarrow> js_error + int" where
  "reduce_BigInt field running [] = Inr running"
| "reduce_BigInt field running (est # rest) =
     (case BigInt (field est) of
        Inl err \<Rightarrow> Inl err
      | Inr v \<Rightarrow> reduce_BigInt field (running + v) rest)"

text \<open>
  The six lines logged after the report is built, lines 992 to 999. The counts are
  Numbers holding small integers, printed with the digits of the integer.
\<close>

definition report_lines :: "gas_report \<Rightarrow> int \<Rightarrow> int \<Rightarrow> tester \<Rightarrow> tester" where
  "report_lines report totalEstimatedGas' totalActualGas' this0 =
     (let this = log (''Total Gas Estimations: '' @ toString (int (totalEstimations report)))
                   RESET this0;
          this = log (''Accurate Estimations: '' @ toString (int (accurateEstimations report))
                      @ '' ('' @ accuracyRate report @ '')'') RESET this;
          this = log (''Over-estimations: '' @ toString (int (overEstimations report))) RESET this;
          this = log (''Under-estimations: '' @ toString (underEstimations report)) RESET this;
          this = log (''Total Estimated Gas: '' @ toString totalEstimatedGas') RESET this;
          this = log (''Total Actual Gas: '' @ toString totalActualGas') RESET this
      in this)"

text \<open>
  \<^verbatim>\<open>generateGasReport()\<close>, lines 944 to 1002. The result is the returned object or the
  exception thrown, together with the tester after the call.
\<close>

definition generateGasReport :: "tester \<Rightarrow> (js_error + report_object) \<times> tester" where
  "generateGasReport this0 =
     (let this = log ([CHR 0x0A] @ BRIGHT @ ''=== GAS ESTIMATION REPORT ==='' @ RESET) RESET this0;
          totalEstimations = length (gasEstimations this)
      in if totalEstimations = 0
         then (Inr EmptyObject,
               log (YELLOW @ ''No gas estimations recorded'' @ RESET) RESET this)
         else
           (let accurateEstimations = filter (\<lambda>e. accurate (accuracy e)) (gasEstimations this);
                overEstimations = filter (\<lambda>e. overEstimated (accuracy e)) (gasEstimations this)
            in (case reduce_BigInt estimated 0 (gasEstimations this) of
                  Inl err \<Rightarrow> (Inl err, this)
                | Inr totalEstimatedGas' \<Rightarrow>
               (case reduce_BigInt actual 0 (gasEstimations this) of
                  Inl err \<Rightarrow> (Inl err, this)
                | Inr totalActualGas' \<Rightarrow>
               (case bigint_div totalEstimatedGas' (int totalEstimations) of
                  Inl err \<Rightarrow> (Inl err, this)
                | Inr averageEstimated' \<Rightarrow>
               (case bigint_div totalActualGas' (int totalEstimations) of
                  Inl err \<Rightarrow> (Inl err, this)
                | Inr averageActual' \<Rightarrow>
               (let report =
                      \<lparr> totalEstimations = totalEstimations,
                        accurateEstimations = length accurateEstimations,
                        overEstimations = length overEstimations,
                        underEstimations =
                          int (length (gasEstimations this)) - int (length overEstimations),
                        accuracyRate =
                          percentage_string (length accurateEstimations) totalEstimations,
                        totalEstimatedGas = toString totalEstimatedGas',
                        totalActualGas = toString totalActualGas',
                        estimationEfficiency =
                          (if totalEstimatedGas' > totalActualGas' then ''Over-estimated''
                           else if totalEstimatedGas' < totalActualGas' then ''Under-estimated''
                           else ''Perfect''),
                        averageEstimated = toString averageEstimated',
                        averageActual = toString averageActual' \<rparr>
                in (Inr (Report report), report_lines report totalEstimatedGas' totalActualGas' this))))))))"

section \<open>The analysis by transaction type\<close>

text \<open>
  The counters kept for one type by the loop of \<^verbatim>\<open>testGasEstimationAccuracy\<close>, lines 901
  to 919 (fields \<^verbatim>\<open>total\<close>, \<^verbatim>\<open>accurate\<close>, \<^verbatim>\<open>overEstimated\<close>, \<^verbatim>\<open>underEstimated\<close>).
\<close>

record type_counters =
  total :: nat
  accurate_count :: nat
  overEstimated_count :: nat
  underEstimated_count :: nat

text \<open>
  \<^verbatim>\<open>typeAnalysis\<close> is an object keyed by type; its keys keep their insertion order, so it
  is an association list in which a new key goes to the end.
\<close>

definition typeAnalysis_step ::
  "(estimation_type \<times> type_counters) list \<Rightarrow> gas_estimation \<Rightarrow> (estimation_type \<times> type_counters) list"
where
  "typeAnalysis_step typeAnalysis estimation =
     (let typeAnalysis =
            (if map_of typeAnalysis (type estimation) = None
             then AList.update (type estimation)
                    \<lparr> total = 0, accurate_count = 0,
                      overEstimated_count = 0, underEstimated_count = 0 \<rparr> typeAnalysis
             else typeAnalysis);
          typeAnalysis =
            AList.map_entry (type estimation) (\<lambda>d. d\<lparr> total := total d + 1 \<rparr>) typeAnalysis;
          typeAnalysis =
            (if accurate (accuracy estimation)
             then AList.map_entry (type estimation)
                    (\<lambda>d. d\<lparr> accurate_count := accurate_count d + 1 \<rparr>) typeAnalysis
             else typeAnalysis);
          typeAnalysis =
            (if overEstimated (accuracy estimation)
             then AList.map_entry (type estimation)
                    (\<lambda>d. d\<lparr> overEstimated_count := overEstimated_count d + 1 \<rparr>) typeAnalysis
             else typeAnalysis);
          typeAnalysis =
            (if underEstimated (accuracy estimation)
             then AList.map_entry (type estimation)
                    (\<lambda>d. d\<lparr> underEstimated_count := underEstimated_count d + 1 \<rparr>) typeAnalysis
             else typeAnalysis)
      in typeAnalysis)"

definition typeAnalysis :: "gas_estimation list \<Rightarrow> (estimation_type \<times> type_counters) list" where
  "typeAnalysis estimations = foldl typeAnalysis_step [] estimations"

text \<open>
  The entry of \<^verbatim>\<open>results\<close> for one type, lines 924 to 938 (fields \<^verbatim>\<open>total\<close>,
  \<^verbatim>\<open>accuracyRate\<close>, \<^verbatim>\<open>overEstimatedRate\<close>, \<^verbatim>\<open>underEstimatedRate\<close>).
\<close>

record type_result =
  total_of_type :: nat
  accuracyRate_of_type :: string
  overEstimatedRate :: string
  underEstimatedRate :: string

definition type_rates :: "type_counters \<Rightarrow> type_result" where
  "type_rates data =
     \<lparr> total_of_type = total data,
       accuracyRate_of_type =
         (if total data > 0 then percentage_string (accurate_count data) (total data) else ''0%''),
       overEstimatedRate =
         (if total data > 0 then percentage_string (overEstimated_count data) (total data) else ''0%''),
       underEstimatedRate =
         (if total data > 0 then percentage_string (underEstimated_count data) (total data) else ''0%'') \<rparr>"

text \<open>
  The loop over \<^verbatim>\<open>Object.entries(typeAnalysis)\<close>, lines 922 to 940, that fills \<^verbatim>\<open>results\<close>.
\<close>

definition typeResults :: "gas_estimation list \<Rightarrow> (estimation_type \<times> type_result) list" where
  "typeResults estimations =
     foldl (\<lambda>results (ty, data). AList.update ty (type_rates data) results) []
       (typeAnalysis estimations)"

section \<open>Vocabulary of the statements\<close>

text \<open>
  The BigInt a stored string stands for, and the sums of the recorded gas values. A record
  is readable when \<^verbatim>\<open>BigInt\<close> accepts both of its strings, as it does for every record
  the tester pushes.
\<close>

definition gas_value :: "string \<Rightarrow> int" where
  "gas_value s = (case BigInt s of Inl err \<Rightarrow> 0 | Inr n \<Rightarrow> n)"

definition readable :: "gas_estimation \<Rightarrow> bool" where
  "readable est = (\<not> isl (BigInt (estimated est)) \<and> \<not> isl (BigInt (actual est)))"

definition sumEstimated :: "gas_estimation list \<Rightarrow> int" where
  "sumEstimated estimations = sum_list (map (\<lambda>est. gas_value (estimated est)) estimations)"

definition sumActual :: "gas_estimation list \<Rightarrow> int" where
  "sumActual estimations = sum_list (map (\<lambda>est. gas_value (actual est)) estimations)"

text \<open>The tester as the constructor leaves it, and a run that records three estimations.\<close>

definition fresh_tester :: tester where
  "fresh_tester = \<lparr> gasEstimations = [], console = [] \<rparr>"

definition example_run :: tester where
  "example_run =
     snd (recordGasEstimation contract_call (Some ''setValue'') 100000 130000
       (snd (recordGasEstimation erc20_transfer None 500000 480000
         (snd (recordGasEstimation eoa_transfer None 21000 21000 fresh_tester)))))"

section \<open>Round trip of a BigInt through its decimal string\<close>

lemma below_ten_cases:
  assumes "d < (10::nat)"
  shows "d = 0 \<or> d = 1 \<or> d = 2 \<or> d = 3 \<or> d = 4 \<or> d = 5 \<or> d = 6 \<or> d = 7 \<or> d = 8 \<or> d = 9"
  using assms by arith

lemma digit_char_decimal: "d < 10 \<Longrightarrow> is_decimal_digit (digit_char d)"
  by (drule below_ten_cases) (auto simp: digit_char_def is_decimal_digit_def)

lemma digit_value_digit_char: "d < 10 \<Longrightarrow> digit_value (digit_char d) = Some d"
  by (drule below_ten_cases) (auto simp: digit_char_def digit_value_def)

lemma decimal_digit_facts:
  assumes "is_decimal_digit c"
  shows "\<not> is_whitespace c" "c \<noteq> CHR ''-''" "c \<noteq> CHR ''+''"
    "c \<notin> set ''xXoObB''"
  using assms by (auto simp: is_decimal_digit_def is_whitespace_def)

lemma parse_acc_snoc:
  "parse_acc r acc (cs @ [c]) =
     (case parse_acc r acc cs of
        None \<Rightarrow> None
      | Some v \<Rightarrow> (case digit_value c of
                     None \<Rightarrow> None
                   | Some d \<Rightarrow> if d < r then Some (v * r + d) else None))"
  by (induction cs arbitrary: acc) (auto split: option.splits)

lemma parse_acc_decimal_digits: "parse_acc 10 0 (decimal_digits n) = Some n"
proof (induction n rule: decimal_digits.induct)
  case (1 n)
  show ?case
  proof (cases "n < 10")
    case True
    then show ?thesis
      by (simp add: decimal_digits.simps [of n] digit_value_digit_char)
  next
    case False
    with 1 have "parse_acc 10 0 (decimal_digits (n div 10)) = Some (n div 10)" by simp
    with False show ?thesis
      by (simp add: decimal_digits.simps [of n] parse_acc_snoc digit_value_digit_char)
  qed
qed

lemma decimal_digits_all: "list_all is_decimal_digit (decimal_digits n)"
proof (induction n rule: decimal_digits.induct)
  case (1 n)
  then show ?case
    by (cases "n < 10") (simp_all add: decimal_digits.simps [of n] digit_char_decimal)
qed

lemma decimal_digits_nonempty: "decimal_digits n \<noteq> []"
  by (simp add: decimal_digits.simps [of n])

lemma dropWhile_hd_id: "xs \<noteq> [] \<Longrightarrow> \<not> P (hd xs) \<Longrightarrow> dropWhile P xs = xs"
  by (cases xs) simp_all

lemma trim_id:
  assumes "s \<noteq> []" "\<not> is_whitespace (hd s)" "\<not> is_whitespace (last s)"
  shows "trim s = s"
proof -
  have a: "dropWhile is_whitespace s = s"
    using assms by (intro dropWhile_hd_id)
  have "hd (rev s) = last s" using assms by (simp add: hd_rev)
  with assms have b: "dropWhile is_whitespace (rev s) = rev s"
    by (intro dropWhile_hd_id) simp_all
  show ?thesis by (simp add: trim_def a b)
qed

lemma radix_prefix_decimal:
  assumes "list_all is_decimal_digit s"
  shows "radix_prefix s = None"
proof (cases s)
  case Nil
  then show ?thesis by (simp add: radix_prefix_def)
next
  case (Cons c0 s')
  show ?thesis
  proof (cases s')
    case Nil
    with Cons show ?thesis by (simp add: radix_prefix_def)
  next
    case (Cons c1 rest)
    with assms \<open>s = c0 # s'\<close> have "is_decimal_digit c1" by simp
    from decimal_digit_facts(4) [OF this] Cons \<open>s = c0 # s'\<close> show ?thesis
      by (simp add: radix_prefix_def)
  qed
qed

lemma StringToBigInt_decimal_digits: "StringToBigInt (decimal_digits n) = Some (int n)"
proof -
  let ?s = "decimal_digits n"
  have ne: "?s \<noteq> []" by (rule decimal_digits_nonempty)
  have all: "list_all is_decimal_digit ?s" by (rule decimal_digits_all)
  from ne all have h: "is_decimal_digit (hd ?s)"
    by (cases ?s) simp_all
  from ne all have l: "is_decimal_digit (last ?s)"
    by (metis last_in_set list_all_iff)
  have t: "trim ?s = ?s"
    using ne h l by (intro trim_id) (simp_all add: decimal_digit_facts)
  show ?thesis
    using ne decimal_digit_facts(2,3) [OF h]
    by (simp add: StringToBigInt_def t Let_def radix_prefix_decimal [OF all]
        parse_digits_def parse_acc_decimal_digits)
qed

lemma StringToBigInt_minus_decimal_digits:
  "StringToBigInt (CHR ''-'' # decimal_digits n) = Some (- int n)"
proof -
  let ?s = "decimal_digits n"
  have ne: "?s \<noteq> []" by (rule decimal_digits_nonempty)
  have all: "list_all is_decimal_digit ?s" by (rule decimal_digits_all)
  from ne all have l: "is_decimal_digit (last ?s)"
    by (metis last_in_set list_all_iff)
  have t: "trim (CHR ''-'' # ?s) = CHR ''-'' # ?s"
  proof (rule trim_id)
    show "\<not> is_whitespace (hd (CHR ''-'' # ?s))" by (simp add: is_whitespace_def)
    show "\<not> is_whitespace (last (CHR ''-'' # ?s))"
      using ne decimal_digit_facts(1) [OF l] by simp
  qed simp
  show ?thesis
    using ne by (simp add: StringToBigInt_def t Let_def parse_digits_def parse_acc_decimal_digits)
qed

lemma BigInt_toString: "BigInt (toString n) = Inr n"
  by (simp add: BigInt_def toString_def StringToBigInt_decimal_digits
      StringToBigInt_minus_decimal_digits)


section \<open>Properties of the classifier\<close>

lemma bigint_div_pos:
  "0 \<le> x \<Longrightarrow> 0 < y \<Longrightarrow> bigint_div x y = Inr (x div y)"
  by (simp add: bigint_div_def sgn_if)

lemma calculateAccuracy_pos:
  assumes "0 < a"
  shows "calculateAccuracy e a =
           Inr \<lparr> accurate = \<bar>e - a\<bar> \<le> (a * 5) div 100,
                 overEstimated = e > a,
                 underEstimated = \<not> e > a,
                 differenceWei = toString \<bar>e - a\<bar>,
                 differencePercentage = toString ((\<bar>e - a\<bar> * 100) div a) @ ''%'' \<rparr>"
proof -
  have d: "(if e > a then e - a else a - e) = \<bar>e - a\<bar>"
    by simp
  have p: "bigint_div (\<bar>e - a\<bar> * 100) a = Inr ((\<bar>e - a\<bar> * 100) div a)"
    using assms by (intro bigint_div_pos) simp_all
  have w: "bigint_div (a * 5) 100 = Inr ((a * 5) div 100)"
    using assms by (intro bigint_div_pos) simp_all
  show ?thesis
    unfolding calculateAccuracy_def d Let_def p w by simp
qed

text \<open>
  C1 (as the code has it): with \<^verbatim>\<open>actual == 0n\<close> the percentage \<^verbatim>\<open>(diff * 100n) / actual\<close>
  divides by zero, so \<^verbatim>\<open>calculateAccuracy\<close> throws a RangeError for every estimate and
  returns no verdict; in particular it throws at \<open>(0, 0)\<close>.
\<close>

theorem calculateAccuracy_zero_actual_throws:
  "calculateAccuracy e 0 = Inl RangeError"
  by (simp add: calculateAccuracy_def bigint_div_def)

text \<open>
  C1, counterexample: at \<open>(0, 0)\<close> the classifier raises instead of returning a verdict
  with \<open>accurate = True\<close>.
\<close>

theorem calculateAccuracy_zero_zero_counterexample:
  "\<not> (case calculateAccuracy 0 0 of Inl err \<Rightarrow> False | Inr v \<Rightarrow> accurate v = (0 = (0::int)))"
  by (simp add: calculateAccuracy_def bigint_div_def)

text \<open>
  C2: for \<open>actual > 0\<close> the classifier returns a verdict whose \<open>accurate\<close> flag is exactly
  the integer-scaled tolerance test \<open>|e - a| * 100 \<le> a * 5\<close>. The arithmetic is on unbounded
  integers, so the size of the gas values does not matter.
\<close>

theorem calculateAccuracy_accurate_scaled:
  assumes "0 \<le> e" and "0 < a"
  shows "\<exists>v. calculateAccuracy e a = Inr v \<and> accurate v = (\<bar>e - a\<bar> * 100 \<le> a * 5)"
proof -
  have "(d \<le> (a * 5) div 100) = (d * 100 \<le> a * 5)" for d :: int
    by linarith
  then show ?thesis
    using assms by (simp add: calculateAccuracy_pos)
qed

text \<open>C2, witness: a pair of gas values beyond \<open>2^53\<close>.\<close>

theorem calculateAccuracy_accurate_scaled_witness:
  "(0::int) \<le> 9007199254740993 \<and> (0::int) < 9007199254740995 \<and>
   (\<exists>v. calculateAccuracy 9007199254740993 9007199254740995 = Inr v \<and>
        accurate v = (\<bar>9007199254740993 - 9007199254740995\<bar> * 100 \<le> (9007199254740995::int) * 5))"
  using calculateAccuracy_accurate_scaled [of 9007199254740993 9007199254740995] by simp


lemma calculateAccuracy_nonzero:
  assumes "a \<noteq> 0"
  shows "calculateAccuracy e a =
           Inr \<lparr> accurate = \<bar>e - a\<bar> \<le> sgn (a * 5) * (\<bar>a * 5\<bar> div 100),
                 overEstimated = e > a,
                 underEstimated = \<not> e > a,
                 differenceWei = toString \<bar>e - a\<bar>,
                 differencePercentage =
                   toString (sgn (\<bar>e - a\<bar> * 100) * sgn a * (\<bar>\<bar>e - a\<bar> * 100\<bar> div \<bar>a\<bar>)) @ ''%'' \<rparr>"
proof -
  have d: "(if e > a then e - a else a - e) = \<bar>e - a\<bar>"
    by simp
  show ?thesis
    unfolding calculateAccuracy_def d Let_def bigint_div_def using assms by simp
qed

lemma toString_small:
  "toString 0 = ''0''" "toString 4 = ''4''" "toString (- 1) = ''-1''"
  "toString 100 = ''100''" "toString 101 = ''101''" "toString 20000 = ''20000''"
  by (simp_all add: toString_def decimal_digits.simps digit_char_def)

text \<open>
  C5: whenever the classifier returns (that is, for \<open>actual \<noteq> 0\<close>), \<open>overEstimated\<close> is the
  strict comparison \<open>estimated > actual\<close> and \<open>underEstimated\<close> is its negation; with
  \<open>estimated = actual\<close> and \<open>actual > 0\<close> the verdict is accurate, not over-estimated and
  under-estimated.
\<close>

theorem calculateAccuracy_over_under:
  assumes "a \<noteq> 0"
  shows "\<exists>v. calculateAccuracy e a = Inr v \<and>
             overEstimated v = (e > a) \<and>
             underEstimated v = (\<not> overEstimated v) \<and>
             (0 < a \<and> e = a \<longrightarrow> accurate v \<and> \<not> overEstimated v \<and> underEstimated v)"
proof -
  have "0 < a \<Longrightarrow> (0::int) \<le> sgn (a * 5) * (\<bar>a * 5\<bar> div 100)"
    by (simp add: sgn_if pos_imp_zdiv_nonneg_iff)
  then show ?thesis
    using assms by (auto simp: calculateAccuracy_nonzero)
qed

text \<open>C5, witness: scenario A of the specification, \<open>(21000, 21000)\<close>.\<close>

theorem calculateAccuracy_over_under_witness:
  "(21000::int) \<noteq> 0 \<and>
   (\<exists>v. calculateAccuracy 21000 21000 = Inr v \<and>
        overEstimated v = ((21000::int) > 21000) \<and>
        underEstimated v = (\<not> overEstimated v) \<and>
        (0::int) < 21000 \<and> (21000::int) = 21000 \<and>
        accurate v \<and> \<not> overEstimated v \<and> underEstimated v)"
proof -
  have nz: "(21000::int) \<noteq> 0" by simp
  have pos: "(0::int) < 21000" by simp
  from calculateAccuracy_over_under [OF nz, of 21000] nz pos show ?thesis by blast
qed

text \<open>
  C7 (as the code has it): at \<open>(500000, 480000)\<close> the difference is \<open>20000\<close>, the verdict is
  accurate and over-estimated, and the percentage is the BigInt quotient
  \<open>2000000 / 480000 = 4\<close>, rendered \<^verbatim>\<open>"4%"\<close>.
\<close>

theorem calculateAccuracy_scenario_B:
  "calculateAccuracy 500000 480000 =
     Inr \<lparr> accurate = True, overEstimated = True, underEstimated = False,
           differenceWei = ''20000'', differencePercentage = ''4%'' \<rparr>"
  by (simp add: calculateAccuracy_pos toString_small)

text \<open>
  C7, counterexample: the percentage field at \<open>(500000, 480000)\<close> is \<^verbatim>\<open>"4%"\<close>, with no
  fractional digits, and not \<^verbatim>\<open>"4.1667%"\<close>.
\<close>

theorem calculateAccuracy_scenario_B_counterexample:
  "(case calculateAccuracy 500000 480000 of
      Inl err \<Rightarrow> False
    | Inr v \<Rightarrow> differencePercentage v = ''4%'' \<and> differencePercentage v \<noteq> ''4.1667%'')"
  by (simp add: calculateAccuracy_pos toString_small)

text \<open>
  C3 (as the code has it): nothing checks the sign of the gas values. With a negative
  estimate or a negative actual value the classifier returns a verdict and the record is
  pushed, as long as \<open>actual \<noteq> 0\<close>; with \<open>actual = 0\<close> the division throws the RangeError
  and nothing is pushed.
\<close>

theorem negative_gas_not_rejected:
  assumes "e < 0 \<or> a < 0"
  shows "(a \<noteq> 0 \<longrightarrow>
            (\<exists>v. calculateAccuracy e a = Inr v \<and>
                 recordGasEstimation ty func e a this =
                   (Inr v, this\<lparr> gasEstimations := gasEstimations this @
                             [\<lparr> type = ty, function = func, estimated = toString e,
                                actual = toString a, accuracy = v \<rparr>] \<rparr>))) \<and>
         (a = 0 \<longrightarrow>
            calculateAccuracy e a = Inl RangeError \<and>
            recordGasEstimation ty func e a this = (Inl RangeError, this))"
proof (cases "a = 0")
  case True
  then have "calculateAccuracy e a = Inl RangeError"
    by (simp add: calculateAccuracy_def bigint_div_def)
  with True show ?thesis
    by (simp add: recordGasEstimation_def)
next
  case False
  then obtain v where "calculateAccuracy e a = Inr v"
    by (simp add: calculateAccuracy_nonzero)
  with False show ?thesis
    by (simp add: recordGasEstimation_def)
qed

text \<open>C3, witness: an estimate of \<open>-1\<close> against an actual value of \<open>100\<close>, on a new tester.\<close>

theorem negative_gas_not_rejected_witness:
  "((-1::int) < 0 \<or> (100::int) < 0) \<and> (100::int) \<noteq> 0 \<and>
   (\<exists>v. calculateAccuracy (-1) 100 = Inr v \<and>
        recordGasEstimation eoa_transfer None (-1) 100 fresh_tester =
          (Inr v, fresh_tester\<lparr> gasEstimations := gasEstimations fresh_tester @
                    [\<lparr> type = eoa_transfer, function = None, estimated = toString (-1),
                       actual = toString 100, accuracy = v \<rparr>] \<rparr>))"
proof -
  have neg: "(-1::int) < 0 \<or> (100::int) < 0" by simp
  have nz: "(100::int) \<noteq> 0" by simp
  from negative_gas_not_rejected [OF neg, of eoa_transfer None fresh_tester] neg nz
  show ?thesis by blast
qed

text \<open>
  C3, counterexample: the classifier accepts the pair \<open>(-1, 100)\<close> and the record
  operation stores it.
\<close>

theorem negative_gas_counterexample:
  "calculateAccuracy (-1) 100 =
     Inr \<lparr> accurate = False, overEstimated = False, underEstimated = True,
           differenceWei = ''101'', differencePercentage = ''101%'' \<rparr> \<and>
   gasEstimations (snd (recordGasEstimation eoa_transfer None (-1) 100
                          fresh_tester)) =
     [\<lparr> type = eoa_transfer, function = None, estimated = ''-1'', actual = ''100'',
        accuracy = \<lparr> accurate = False, overEstimated = False, underEstimated = True,
                     differenceWei = ''101'', differencePercentage = ''101%'' \<rparr> \<rparr>]"
  by (simp add: recordGasEstimation_def calculateAccuracy_pos toString_small fresh_tester_def)

section \<open>Properties of the report\<close>

lemma gasEstimations_log [simp]: "gasEstimations (log message color this) = gasEstimations this"
  by (simp add: log_def)

lemma gasEstimations_report_lines [simp]:
  "gasEstimations (report_lines report x y this) = gasEstimations this"
  by (simp add: report_lines_def Let_def)

lemma BigInt_cases: "BigInt s = Inl SyntaxError \<or> BigInt s = Inr (gas_value s)"
  by (simp add: BigInt_def gas_value_def split: option.splits)

lemma reduce_BigInt_eq:
  "reduce_BigInt field running xs =
     (if list_all (\<lambda>est. \<not> isl (BigInt (field est))) xs
      then Inr (running + sum_list (map (\<lambda>est. gas_value (field est)) xs))
      else Inl SyntaxError)"
proof (induction xs arbitrary: running)
  case Nil
  then show ?case by simp
next
  case (Cons est xs)
  from BigInt_cases [of "field est"] show ?case
  proof
    assume "BigInt (field est) = Inl SyntaxError"
    then show ?thesis by simp
  next
    assume "BigInt (field est) = Inr (gas_value (field est))"
    then show ?thesis by (simp add: Cons.IH add.assoc)
  qed
qed

lemma list_all_readable:
  "list_all readable xs \<Longrightarrow>
     list_all (\<lambda>est. \<not> isl (BigInt (estimated est))) xs \<and>
     list_all (\<lambda>est. \<not> isl (BigInt (actual est))) xs"
  by (simp add: list_all_iff readable_def)

text \<open>The report object for a non-empty sequence of readable records, field by field.\<close>

lemma generateGasReport_nonempty:
  assumes ne: "gasEstimations this \<noteq> []"
    and rd: "list_all readable (gasEstimations this)"
  shows "fst (generateGasReport this) =
     Inr (Report
       \<lparr> totalEstimations = length (gasEstimations this),
         accurateEstimations = length (filter (\<lambda>e. accurate (accuracy e)) (gasEstimations this)),
         overEstimations = length (filter (\<lambda>e. overEstimated (accuracy e)) (gasEstimations this)),
         underEstimations =
           int (length (gasEstimations this)) -
           int (length (filter (\<lambda>e. overEstimated (accuracy e)) (gasEstimations this))),
         accuracyRate =
           percentage_string (length (filter (\<lambda>e. accurate (accuracy e)) (gasEstimations this)))
             (length (gasEstimations this)),
         totalEstimatedGas = toString (sumEstimated (gasEstimations this)),
         totalActualGas = toString (sumActual (gasEstimations this)),
         estimationEfficiency =
           (if sumEstimated (gasEstimations this) > sumActual (gasEstimations this)
            then ''Over-estimated''
            else if sumEstimated (gasEstimations this) < sumActual (gasEstimations this)
            then ''Under-estimated'' else ''Perfect''),
         averageEstimated =
           toString (sgn (sumEstimated (gasEstimations this)) *
                     (\<bar>sumEstimated (gasEstimations this)\<bar> div int (length (gasEstimations this)))),
         averageActual =
           toString (sgn (sumActual (gasEstimations this)) *
                     (\<bar>sumActual (gasEstimations this)\<bar> div int (length (gasEstimations this)))) \<rparr>)"
proof -
  from ne have len: "length (gasEstimations this) \<noteq> 0" by simp
  from list_all_readable [OF rd]
  have e: "reduce_BigInt estimated 0 (gasEstimations this) = Inr (sumEstimated (gasEstimations this))"
    and a: "reduce_BigInt actual 0 (gasEstimations this) = Inr (sumActual (gasEstimations this))"
    by (simp_all add: reduce_BigInt_eq sumEstimated_def sumActual_def)
  show ?thesis
    unfolding generateGasReport_def Let_def
    using len by (simp add: e a bigint_div_def)
qed

lemma generateGasReport_unreadable:
  assumes ne: "gasEstimations this \<noteq> []"
    and rd: "\<not> list_all readable (gasEstimations this)"
  shows "fst (generateGasReport this) = Inl SyntaxError"
proof -
  from ne have len: "length (gasEstimations this) \<noteq> 0" by simp
  from rd have "\<not> list_all (\<lambda>est. \<not> isl (BigInt (estimated est))) (gasEstimations this) \<or>
                \<not> list_all (\<lambda>est. \<not> isl (BigInt (actual est))) (gasEstimations this)"
    by (auto simp: list_all_iff readable_def)
  then show ?thesis
    unfolding generateGasReport_def Let_def
    using len by (auto simp: reduce_BigInt_eq)
qed

lemma readable_recorded:
  assumes "list_all readable (gasEstimations this)"
  shows "list_all readable (gasEstimations (snd (recordGasEstimation ty func e a this)))"
  using assms
  by (cases "calculateAccuracy e a")
     (simp_all add: recordGasEstimation_def readable_def BigInt_toString)

lemma recorded_nonempty:
  assumes "a \<noteq> 0"
  shows "gasEstimations (snd (recordGasEstimation ty func e a this)) \<noteq> []"
  using assms by (simp add: recordGasEstimation_def calculateAccuracy_nonzero)

lemma example_run_readable: "list_all readable (gasEstimations example_run)"
  unfolding example_run_def
  by (intro readable_recorded) (simp add: fresh_tester_def)

lemma example_run_nonempty: "gasEstimations example_run \<noteq> []"
  unfolding example_run_def by (rule recorded_nonempty) simp

text \<open>
  C4 (as the code has it): with no estimation recorded, \<^verbatim>\<open>generateGasReport\<close> returns the
  empty object \<^verbatim>\<open>{}\<close> after logging the heading and the line "No gas estimations
  recorded"; it does not throw, and the recorded estimations stay empty.
\<close>

theorem generateGasReport_empty:
  assumes "gasEstimations this = []"
  shows "generateGasReport this =
           (Inr EmptyObject,
            this\<lparr> console := console this @
              [RESET @ [CHR 0x0A] @ BRIGHT @ ''=== GAS ESTIMATION REPORT ==='' @ RESET @ RESET,
               RESET @ YELLOW @ ''No gas estimations recorded'' @ RESET @ RESET] \<rparr>)"
  using assms by (simp add: generateGasReport_def Let_def log_def)

text \<open>C4, witness: the tester as constructed.\<close>

theorem generateGasReport_empty_witness:
  "gasEstimations fresh_tester = [] \<and>
   generateGasReport fresh_tester =
     (Inr EmptyObject,
      fresh_tester\<lparr> console := console fresh_tester @
        [RESET @ [CHR 0x0A] @ BRIGHT @ ''=== GAS ESTIMATION REPORT ==='' @ RESET @ RESET,
         RESET @ YELLOW @ ''No gas estimations recorded'' @ RESET @ RESET] \<rparr>)"
proof -
  have e: "gasEstimations fresh_tester = []" by (simp add: fresh_tester_def)
  from generateGasReport_empty [OF e] e show ?thesis by blast
qed

text \<open>
  C4, counterexample: on the tester as constructed the result is not a report with the
  label "Perfect", a zero rate and zero counts; it has no fields at all.
\<close>

theorem generateGasReport_empty_counterexample:
  "\<not> (case fst (generateGasReport fresh_tester) of
        Inl err \<Rightarrow> False
      | Inr EmptyObject \<Rightarrow> False
      | Inr (Report r) \<Rightarrow>
          accuracyRate r \<in> set [''0'', ''0%'', ''0.00%''] \<and>
          estimationEfficiency r = ''Perfect'' \<and>
          totalEstimations r = 0 \<and> accurateEstimations r = 0 \<and>
          overEstimations r = 0 \<and> underEstimations r = 0)"
  by (simp add: generateGasReport_def Let_def log_def fresh_tester_def)

text \<open>
  C6: for a non-empty sequence of recorded estimations the report exists and its
  \<open>estimationEfficiency\<close> is "Over-estimated" exactly when the estimated gas sums to more
  than the actual gas, "Under-estimated" exactly when it sums to less, and "Perfect"
  exactly when the two sums are equal.
\<close>

theorem estimationEfficiency_by_sums:
  assumes "gasEstimations this \<noteq> []"
    and "list_all readable (gasEstimations this)"
  shows "\<exists>r. fst (generateGasReport this) = Inr (Report r) \<and>
           (estimationEfficiency r = ''Over-estimated'' \<longleftrightarrow>
              sumEstimated (gasEstimations this) > sumActual (gasEstimations this)) \<and>
           (estimationEfficiency r = ''Under-estimated'' \<longleftrightarrow>
              sumEstimated (gasEstimations this) < sumActual (gasEstimations this)) \<and>
           (estimationEfficiency r = ''Perfect'' \<longleftrightarrow>
              sumEstimated (gasEstimations this) = sumActual (gasEstimations this))"
  by (simp add: generateGasReport_nonempty [OF assms])

text \<open>C6, witness: the run with three recorded estimations.\<close>

theorem estimationEfficiency_by_sums_witness:
  "gasEstimations example_run \<noteq> [] \<and> list_all readable (gasEstimations example_run) \<and>
   (\<exists>r. fst (generateGasReport example_run) = Inr (Report r) \<and>
      (estimationEfficiency r = ''Over-estimated'' \<longleftrightarrow>
         sumEstimated (gasEstimations example_run) > sumActual (gasEstimations example_run)) \<and>
      (estimationEfficiency r = ''Under-estimated'' \<longleftrightarrow>
         sumEstimated (gasEstimations example_run) < sumActual (gasEstimations example_run)) \<and>
      (estimationEfficiency r = ''Perfect'' \<longleftrightarrow>
         sumEstimated (gasEstimations example_run) = sumActual (gasEstimations example_run)))"
  using estimationEfficiency_by_sums [OF example_run_nonempty example_run_readable]
    example_run_nonempty example_run_readable
  by blast

end
